theory Spec2Isabelle
  imports Main "HOL-Library.Word" "HOL-Library.Signed_Division"
begin

section \<open>The demo application of Demo/Realview\_PBX/main.c\<close>

text \<open>
  The application consists of a start-up function, two task functions and five hooks
  that the kernel calls. Everything else (the kernel, the serial driver, the interrupt
  controller) is reached through calls. The embedding threads one record, the
  \<open>world\<close>, through every function: it holds the program's own static data, the log of
  the commands issued to the collaborators, and the part of the collaborators' state
  that the program can observe.
\<close>

subsection \<open>Data\<close>

text \<open>
  \<^verbatim>\<open>typedef struct _paramStruct { portCHAR* text; UBaseType_t delay; } paramStruct;\<close>
  A C string is represented by its bytes before the terminating NUL; a null
  \<open>text\<close> pointer is \<open>None\<close>. The field \<open>text\<close> is spelt \<open>text'\<close>.
\<close>

record paramStruct =
  text' :: "string option"
  delay :: nat

abbreviation CR :: char where "CR \<equiv> CHR 0x0D"
abbreviation LF :: char where "LF \<equiv> CHR 0x0A"

definition defaultText :: string where
  "defaultText = ''<NO TEXT>'' @ [CR, LF]"

definition defaultDelay :: nat where
  "defaultDelay = 1000"

text \<open>
  The macros of \<open>app_config.h\<close>, \<open>FreeRTOSConfig.h\<close> and \<open>portmacro.h\<close> are not part of
  main.c: they are parameters of the embedding.
\<close>

record config =
  configUART_PORT :: nat
  mainPRINT_PORT :: nat
  mainPRINT_BAUDRATE :: nat
  portTICK_RATE_MS :: nat
  portMAX_VECTORS :: nat
  configMAX_SYSCALL_INTERRUPT_PRIORITY :: nat
  PRIOR_PERIODIC :: nat
  PRIOR_FIX_FREQ_PERIODIC :: nat

text \<open>
  \<open>TickType_t\<close> is declared in portmacro.h, not in main.c: on this 32-bit port it is the
  32-bit unsigned integer, whose arithmetic wraps around.
\<close>

type_synonym TickType_t = "32 word"

datatype task_code = TaskFunction | PeriodicTaskFunction

datatype handler = UnknownInterruptHandler

datatype arg = ArgInt int | ArgStr string

text \<open>
  A command issued to a collaborator, with its arguments. The parameter of a created
  task is the address of an element of \<open>tParam\<close>, recorded as the element's index.
\<close>

datatype call =
    DISABLE_INTERRUPTS
  | ENABLE_INTERRUPTS
  | InstallInterruptHandler handler nat nat bool nat nat
  | UARTInitialise nat nat nat
  | SerialPutString nat string nat
  | SerialPutChar nat char
  | TaskCreate task_code string nat nat nat
  | TaskStartScheduler
  | TaskDelay nat
  | TaskDelayUntil TickType_t TickType_t
  | TaskDelete
  | Printf string "arg list"
  | Smc nat

record vector_entry =
  ve_handler :: handler
  ve_parameter :: nat
  ve_edge :: bool
  ve_priority :: nat
  ve_targets :: nat

record world =
  calls :: "call list"
  tParam :: "paramStruct list"
  ticks :: "32 word"
  tickCount :: nat
  busy :: "nat list"
  rx :: "char list"
  vectors :: "(nat \<times> vector_entry) list"
  createResults :: "int list"
  schedulerReturns :: bool

text \<open>
  \<open>calls\<close> is the log of commands, oldest first; \<open>tParam\<close> is the global array of the two
  descriptors; \<open>ticks\<close> is the \<open>static int\<close> of the tick hook (32 bits on this target,
  read as a signed value with \<open>sint\<close>). The other fields belong to the collaborators:
  \<open>tickCount\<close> is the kernel's tick count, \<open>busy\<close> gives the ticks that pass while the
  running task is inside its successive serial writes, \<open>rx\<close> holds the bytes received and
  not yet read, \<open>vectors\<close> is the interrupt controller's table (latest registration
  first), \<open>createResults\<close> lists the kernel's answers to the coming creation requests
  (none left: success) and \<open>schedulerReturns\<close> tells whether the scheduler start comes
  back.
\<close>

text \<open>\<^verbatim>\<open>paramStruct tParam[2] = { {"Task1\r\n", 1000}, {"Periodic task\r\n", 3000} };\<close>\<close>

definition tParam_init :: "paramStruct list" where
  "tParam_init =
     [\<lparr>text' = Some (''Task1'' @ [CR, LF]), delay = 1000\<rparr>,
      \<lparr>text' = Some (''Periodic task'' @ [CR, LF]), delay = 3000\<rparr>]"

text \<open>The state at reset: static data initialised, nothing issued, no handler installed.\<close>

definition world_init :: "nat list \<Rightarrow> char list \<Rightarrow> int list \<Rightarrow> bool \<Rightarrow> world" where
  "world_init bs input rs back =
     \<lparr>calls = [], tParam = tParam_init, ticks = 0, tickCount = 0, busy = bs, rx = input,
      vectors = [], createResults = rs, schedulerReturns = back\<rparr>"

subsection \<open>Control that does not return\<close>

text \<open>
  A run either returns or does not; \<open>NoReturn s\<close> carries the state reached when the
  fuel ran out inside a loop, or when control was handed to the kernel for good.
\<close>

datatype 'a run = Returned 'a | NoReturn 'a

fun state_of :: "'a run \<Rightarrow> 'a" where
  "state_of (Returned s) = s"
| "state_of (NoReturn s) = s"

fun returns :: "'a run \<Rightarrow> bool" where
  "returns (Returned s) = True"
| "returns (NoReturn s) = False"

fun and_then :: "'a run \<Rightarrow> ('a \<Rightarrow> 'b run) \<Rightarrow> ('a \<Rightarrow> 'b) \<Rightarrow> 'b run" where
  "and_then (Returned s) f g = f s"
| "and_then (NoReturn s) f g = NoReturn (g s)"

text \<open>\<^verbatim>\<open>for( ; ; ) body\<close> and \<^verbatim>\<open>while(1) body\<close>, with no \<open>break\<close> in the body.\<close>

fun for_ever :: "nat \<Rightarrow> ('s \<Rightarrow> 's) \<Rightarrow> 's \<Rightarrow> 's run" where
  "for_ever 0 body s = NoReturn s"
| "for_ever (Suc n) body s = for_ever n body (body s)"

subsection \<open>The collaborators\<close>

text \<open>A command is issued by appending it to the log.\<close>

definition issue :: "call \<Rightarrow> world \<Rightarrow> world" where
  "issue c w = w\<lparr>calls := calls w @ [c]\<rparr>"

text \<open>The C library's \<open>strlen\<close>: the number of bytes before the terminating NUL.\<close>

definition strlen :: "string \<Rightarrow> nat" where
  "strlen s = length s"

text \<open>The kernel's \<open>pdPASS\<close> (projdefs.h), the answer of a successful creation.\<close>

definition pdPASS :: int where
  "pdPASS = 1"

text \<open>The port's macros that switch the global interrupts off and on.\<close>

definition portDISABLE_INTERRUPTS :: "world \<Rightarrow> world" where
  "portDISABLE_INTERRUPTS w = issue DISABLE_INTERRUPTS w"

definition portENABLE_INTERRUPTS :: "world \<Rightarrow> world" where
  "portENABLE_INTERRUPTS w = issue ENABLE_INTERRUPTS w"

definition taskDISABLE_INTERRUPTS :: "world \<Rightarrow> world" where
  "taskDISABLE_INTERRUPTS w = issue DISABLE_INTERRUPTS w"

text \<open>
  The kernel, the serial driver and the interrupt controller are not in main.c. Their
  operations are modelled from the spec (sections 4 and 6), each as the command it adds to
  the log and the effect the spec gives it.
\<close>

text \<open>
  Modelled from the spec: \<open>vPortInstallInterruptHandler\<close> of the interrupt controller, not
  in main.c ("register handler H for vector V with priority P, edge/level mode E").
\<close>

definition vPortInstallInterruptHandler ::
    "handler \<Rightarrow> nat \<Rightarrow> nat \<Rightarrow> bool \<Rightarrow> nat \<Rightarrow> nat \<Rightarrow> world \<Rightarrow> world" where
  "vPortInstallInterruptHandler h p v e pr tg w =
     issue (InstallInterruptHandler h p v e pr tg)
       (w\<lparr>vectors := (v, \<lparr>ve_handler = h, ve_parameter = p, ve_edge = e,
                            ve_priority = pr, ve_targets = tg\<rparr>) # vectors w\<rparr>)"

text \<open>The handler registered for a vector: the latest registration counts.\<close>

definition handler_of :: "world \<Rightarrow> nat \<Rightarrow> vector_entry option" where
  "handler_of w v = map_of (vectors w) v"

text \<open>
  Modelled from the spec: \<open>vUARTInitialise\<close> of the serial driver, not in main.c
  ("initialize the serial transport with a fixed baud rate and buffer size").
\<close>

definition vUARTInitialise :: "nat \<Rightarrow> nat \<Rightarrow> nat \<Rightarrow> world \<Rightarrow> world" where
  "vUARTInitialise port baud len w = issue (UARTInitialise port baud len) w"

text \<open>
  Modelled from the spec: \<open>vSerialPutString\<close> of the serial driver, not in main.c
  (\<open>write(bytes)\<close>, "blocking until the transport accepts all bytes"). The time a task
  spends before it suspends again is charged to its serial write: the write takes the
  next entry of \<open>busy\<close>, and no time once the list is used up.
\<close>

definition vSerialPutString :: "nat \<Rightarrow> string \<Rightarrow> nat \<Rightarrow> world \<Rightarrow> world" where
  "vSerialPutString port s n w =
     issue (SerialPutString port s n)
       (w\<lparr>tickCount := tickCount w + (case busy w of [] \<Rightarrow> 0 | b # bs \<Rightarrow> b),
          busy := tl (busy w)\<rparr>)"

text \<open>
  Modelled from the spec: \<open>xSerialGetChar\<close> of the serial driver with no waiting time, not
  in main.c (\<open>try_read_byte()\<close>, non-blocking, an optional byte). \<open>None\<close> is the answer
  other than \<open>pdTRUE\<close>.
\<close>

definition xSerialGetChar :: "nat \<Rightarrow> world \<Rightarrow> char option \<times> world" where
  "xSerialGetChar port w =
     (case rx w of [] \<Rightarrow> (None, w) | c # cs \<Rightarrow> (Some c, w\<lparr>rx := cs\<rparr>))"

text \<open>
  Modelled from the spec: \<open>xSerialPutChar\<close> of the serial driver, not in main.c (a write of
  one byte); the program discards its answer.
\<close>

definition xSerialPutChar :: "nat \<Rightarrow> char \<Rightarrow> world \<Rightarrow> world" where
  "xSerialPutChar port c w = issue (SerialPutChar port c) w"

text \<open>The C library's \<open>printf\<close>: the format and the arguments are logged as they are.\<close>

definition printf :: "string \<Rightarrow> arg list \<Rightarrow> world \<Rightarrow> world" where
  "printf fmt args w = issue (Printf fmt args) w"

text \<open>
  Modelled from the spec: \<open>xTaskGetTickCount\<close> of the kernel, not in main.c
  (\<open>current_tick()\<close>). The kernel's tick count is the spec's "monotonically
  non-decreasing tick counter", a natural number; the caller receives it as a
  \<open>TickType_t\<close>, that is modulo \<open>2 ^ 32\<close>.
\<close>

definition xTaskGetTickCount :: "world \<Rightarrow> TickType_t" where
  "xTaskGetTickCount w = of_nat (tickCount w)"

text \<open>
  Modelled from the spec: \<open>vTaskDelay\<close> of the kernel, not in main.c
  (\<open>sleep_relative(ticks)\<close>: "the next wake time is computed by the kernel as now +
  requested ticks at the moment the call is made"). The state returned is the state at
  the wake.
\<close>

definition vTaskDelay :: "nat \<Rightarrow> world \<Rightarrow> world" where
  "vTaskDelay n w = issue (TaskDelay n) (w\<lparr>tickCount := tickCount w + n\<rparr>)"

text \<open>
  Modelled from the spec: \<open>vTaskDelayUntil\<close> of the kernel, not in main.c
  (\<open>sleep_until(&reference, ticks)\<close>: "suspend the calling task until exactly reference +
  period ticks have elapsed, and update reference := reference + period as a side
  effect"; "if a single iteration overruns its period, the next wake is scheduled
  immediately (no negative sleep), and the reference still advances by exactly one
  period"). The reference is the caller's \<open>TickType_t\<close> variable and the increment a
  \<open>TickType_t\<close>: the new reference is their sum modulo \<open>2 ^ 32\<close>. The kernel reads the
  old reference as the latest tick, not after the present one, that has this value as a
  \<open>TickType_t\<close>, and wakes the task \<open>increment\<close> ticks after it, or at once when that
  tick has passed. The first component is the new value of the reference.
\<close>

definition vTaskDelayUntil ::
    "TickType_t \<Rightarrow> TickType_t \<Rightarrow> world \<Rightarrow> TickType_t \<times> world" where
  "vTaskDelayUntil previousWakeTime increment w =
     (let reference = tickCount w - unat (of_nat (tickCount w) - previousWakeTime);
          wake = reference + unat increment
      in (previousWakeTime + increment,
          issue (TaskDelayUntil previousWakeTime increment)
            (w\<lparr>tickCount := max (tickCount w) wake\<rparr>)))"

text \<open>Modelled from the spec: \<open>vTaskDelete\<close> of the kernel, not in main.c (\<open>delete_self()\<close>).\<close>

definition vTaskDelete :: "world \<Rightarrow> world" where
  "vTaskDelete w = issue TaskDelete w"

text \<open>
  Modelled from the spec: \<open>xTaskCreate\<close> of the kernel, not in main.c (\<open>create_task\<close>, which
  answers success or a creation error, "resource exhaustion signaled by the kernel").
  The answer is the next entry of \<open>createResults\<close>, and \<open>pdPASS\<close> once the list is used up.
\<close>

definition xTaskCreate ::
    "task_code \<Rightarrow> string \<Rightarrow> nat \<Rightarrow> nat \<Rightarrow> nat \<Rightarrow> world \<Rightarrow> int \<times> world" where
  "xTaskCreate code name depth param prio w =
     (case createResults w of [] \<Rightarrow> pdPASS | r # rs \<Rightarrow> r,
      issue (TaskCreate code name depth param prio)
        (w\<lparr>createResults := tl (createResults w)\<rparr>))"

text \<open>
  Modelled from the spec: \<open>vTaskStartScheduler\<close> of the kernel, not in main.c
  (\<open>start_scheduler()\<close>, "non-returning on success"; "if it does return ... insufficient
  kernel-managed memory").
\<close>

definition vTaskStartScheduler :: "world \<Rightarrow> world run" where
  "vTaskStartScheduler w =
     (if schedulerReturns w then Returned (issue TaskStartScheduler w)
      else NoReturn (issue TaskStartScheduler w))"

subsection \<open>The task functions\<close>

text \<open>
  Both task functions start with the same two lines:
  \<^verbatim>\<open>taskName = ( NULL==params || NULL==params->text ? defaultText : params->text );\<close>
  \<^verbatim>\<open>delay = ( NULL==params ? defaultDelay : params->delay);\<close>
  A null \<open>pvParameters\<close> is \<open>None\<close>.
\<close>

definition vTaskFunction_entry :: "paramStruct option \<Rightarrow> string \<times> nat" where
  "vTaskFunction_entry params =
     (let taskName = (case params of None \<Rightarrow> defaultText
                      | Some p \<Rightarrow> (case text' p of None \<Rightarrow> defaultText | Some t \<Rightarrow> t));
          d = (case params of None \<Rightarrow> defaultDelay | Some p \<Rightarrow> delay p)
      in (taskName, d))"

definition vTaskFunction_body :: "config \<Rightarrow> string \<Rightarrow> nat \<Rightarrow> world \<Rightarrow> world" where
  "vTaskFunction_body cfg taskName d w =
     vTaskDelay (d div portTICK_RATE_MS cfg)
       (vSerialPutString (configUART_PORT cfg) taskName (strlen taskName) w)"

definition vTaskFunction :: "config \<Rightarrow> nat \<Rightarrow> paramStruct option \<Rightarrow> world \<Rightarrow> world run" where
  "vTaskFunction cfg fuel pvParameters w =
     (let (taskName, d) = vTaskFunction_entry pvParameters
      in and_then (for_ever fuel (vTaskFunction_body cfg taskName d) w)
           (\<lambda>w'. Returned (vTaskDelete w')) id)"

definition vPeriodicTaskFunction_entry :: "paramStruct option \<Rightarrow> string \<times> nat" where
  "vPeriodicTaskFunction_entry params =
     (let taskName = (case params of None \<Rightarrow> defaultText
                      | Some p \<Rightarrow> (case text' p of None \<Rightarrow> defaultText | Some t \<Rightarrow> t));
          d = (case params of None \<Rightarrow> defaultDelay | Some p \<Rightarrow> delay p)
      in (taskName, d))"

text \<open>
  The loop state of the periodic task is its local \<open>TickType_t lastWakeTime\<close> and the
  world. The quotient \<open>delay / portTICK_RATE_MS\<close> is passed as a \<open>TickType_t\<close>.
\<close>

definition vPeriodicTaskFunction_body ::
    "config \<Rightarrow> string \<Rightarrow> nat \<Rightarrow> TickType_t \<times> world \<Rightarrow> TickType_t \<times> world" where
  "vPeriodicTaskFunction_body cfg taskName d s =
     (case s of (lastWakeTime, w) \<Rightarrow>
        vTaskDelayUntil lastWakeTime (of_nat (d div portTICK_RATE_MS cfg))
          (vSerialPutString (configUART_PORT cfg) taskName (strlen taskName) w))"

definition vPeriodicTaskFunction ::
    "config \<Rightarrow> nat \<Rightarrow> paramStruct option \<Rightarrow> world \<Rightarrow> world run" where
  "vPeriodicTaskFunction cfg fuel pvParameters w =
     (let (taskName, d) = vPeriodicTaskFunction_entry pvParameters;
          lastWakeTime = xTaskGetTickCount w
      in and_then (for_ever fuel (vPeriodicTaskFunction_body cfg taskName d) (lastWakeTime, w))
           (\<lambda>s. Returned (vTaskDelete (snd s))) snd)"

subsection \<open>The start-up function\<close>

definition banner :: string where
  "banner = ''= = = T E S T   S T A R T E D = = ='' @ [CR, LF, CR, LF]"

definition msg_task1 :: string where
  "msg_task1 = ''Could not create task1'' @ [CR, LF]"

definition msg_task2 :: string where
  "msg_task2 = ''Could not create task2'' @ [CR, LF]"

definition msg_keyboard :: string where
  "msg_keyboard = ''A text may be entered using a keyboard.'' @ [CR, LF]"

definition msg_enter :: string where
  "msg_enter = ''It will be displayed when 'Enter' is pressed.'' @ [CR, LF, CR, LF]"

definition msg_scheduler :: string where
  "msg_scheduler = ''Could not start the scheduler!!!'' @ [CR, LF]"

text \<open>
  \<^verbatim>\<open>for ( ulVector = 0; ulVector < portMAX_VECTORS; ulVector++ )\<close>
  \<^verbatim>\<open>    vPortInstallInterruptHandler( vPortUnknownInterruptHandler, (void *)ulVector,\<close>
  \<^verbatim>\<open>        ulVector, pdTRUE, configMAX_SYSCALL_INTERRUPT_PRIORITY, 1 );\<close>
\<close>

function install_handlers :: "config \<Rightarrow> nat \<Rightarrow> world \<Rightarrow> world" where
  "install_handlers cfg ulVector w =
     (if ulVector < portMAX_VECTORS cfg
      then install_handlers cfg (ulVector + 1)
             (vPortInstallInterruptHandler UnknownInterruptHandler ulVector ulVector True
                (configMAX_SYSCALL_INTERRUPT_PRIORITY cfg) 1 w)
      else w)"
  by pat_completeness auto
termination
  by (relation "measure (\<lambda>(cfg, v, w). portMAX_VECTORS cfg - v)") auto

declare install_handlers.simps [simp del]

text \<open>\<^verbatim>\<open>vSerialPutString(..., msg, strlen(msg)); while(1);\<close>\<close>

definition report_and_halt :: "config \<Rightarrow> nat \<Rightarrow> string \<Rightarrow> world \<Rightarrow> world run" where
  "report_and_halt cfg fuel msg w =
     for_ever fuel id (vSerialPutString (configUART_PORT cfg) msg (strlen msg) w)"

definition main :: "config \<Rightarrow> nat \<Rightarrow> world \<Rightarrow> world run" where
  "main cfg fuel w0 =
     (let w1 = portDISABLE_INTERRUPTS w0;
          w2 = install_handlers cfg 0 w1;
          w3 = vUARTInitialise (mainPRINT_PORT cfg) (mainPRINT_BAUDRATE cfg) 64 w2;
          w4 = portENABLE_INTERRUPTS w3;
          w5 = vSerialPutString (configUART_PORT cfg) banner (strlen banner) w4;
          (r1, w6) = xTaskCreate TaskFunction ''task1'' 128 0 (PRIOR_PERIODIC cfg) w5
      in if pdPASS \<noteq> r1 then report_and_halt cfg fuel msg_task1 w6
         else
           let (r2, w7) = xTaskCreate PeriodicTaskFunction ''task2'' 128 1
                            (PRIOR_FIX_FREQ_PERIODIC cfg) w6
           in if pdPASS \<noteq> r2 then report_and_halt cfg fuel msg_task2 w7
              else
                let w8 = vSerialPutString (configUART_PORT cfg) msg_keyboard
                           (strlen msg_keyboard) w7;
                    w9 = vSerialPutString (configUART_PORT cfg) msg_enter
                           (strlen msg_enter) w8
                in and_then (vTaskStartScheduler w9)
                     (\<lambda>w10. and_then (report_and_halt cfg fuel msg_scheduler w10)
                               (for_ever fuel id) id)
                     id)"

subsection \<open>The hooks\<close>

definition vApplicationMallocFailedHook :: "world \<Rightarrow> world" where
  "vApplicationMallocFailedHook w = issue (Smc 0) w"

definition vAssertCalled :: "nat \<Rightarrow> string \<Rightarrow> int \<Rightarrow> world \<Rightarrow> world run" where
  "vAssertCalled fuel file line w =
     for_ever fuel id
       (taskDISABLE_INTERRUPTS
          (printf (''Assertion failed at %s, line %d'' @ [LF, CR]) [ArgStr file, ArgInt line] w))"

text \<open>
  \<^verbatim>\<open>static int ticks = 0; ticks++;\<close>
  \<^verbatim>\<open>if (ticks % 1000 == 0) printf("Time : %d sec\r\n\n", ticks / 1000);\<close>
  The counter is a 32-bit two's complement integer: \<open>ticks++\<close> wraps around at the
  largest \<open>int\<close>, as the target's addition does (C leaves the overflow undefined);
  \<open>%\<close> and \<open>/\<close> truncate towards zero (\<open>smod\<close>, \<open>sdiv\<close>).
\<close>

definition time_format :: string where
  "time_format = ''Time : %d sec'' @ [CR, LF, LF]"

definition vApplicationTickHook :: "world \<Rightarrow> world" where
  "vApplicationTickHook w =
     (let w1 = w\<lparr>ticks := ticks w + 1\<rparr>
      in if sint (ticks w1) smod 1000 = 0
         then printf time_format [ArgInt (sint (ticks w1) sdiv 1000)] w1
         else w1)"

definition vApplicationIdleHook :: "config \<Rightarrow> world \<Rightarrow> world" where
  "vApplicationIdleHook cfg w =
     (case xSerialGetChar (mainPRINT_PORT cfg) w of
        (Some cChar, w1) \<Rightarrow>
          xSerialPutChar (mainPRINT_PORT cfg) cChar
            (xSerialPutChar (mainPRINT_PORT cfg) cChar w1)
      | (None, w1) \<Rightarrow> w1)"

text \<open>
  \<^verbatim>\<open>( void ) pxTask; ( void ) pcTaskName; printf("StackOverflowHook\n"); for( ;; );\<close>
\<close>

definition vApplicationStackOverflowHook :: "nat \<Rightarrow> nat \<Rightarrow> string \<Rightarrow> world \<Rightarrow> world run" where
  "vApplicationStackOverflowHook fuel pxTask pcTaskName w =
     for_ever fuel id (printf (''StackOverflowHook'' @ [LF]) [] w)"

text \<open>The tick hook called \<open>n\<close> times in a row.\<close>

definition tick_hook_times :: "nat \<Rightarrow> world \<Rightarrow> world" where
  "tick_hook_times n w = (vApplicationTickHook ^^ n) w"

text \<open>A configuration for concrete instances: one tick per millisecond, three vectors.\<close>

definition example_config :: config where
  "example_config =
     \<lparr>configUART_PORT = 0, mainPRINT_PORT = 0, mainPRINT_BAUDRATE = 115200,
      portTICK_RATE_MS = 1, portMAX_VECTORS = 3, configMAX_SYSCALL_INTERRUPT_PRIORITY = 20,
      PRIOR_PERIODIC = 2, PRIOR_FIX_FREQ_PERIODIC = 3\<rparr>"

text \<open>The command by which the tick hook reports \<open>j\<close> elapsed seconds.\<close>

definition elapsed_report :: "int \<Rightarrow> call" where
  "elapsed_report j = Printf time_format [ArgInt j]"

text \<open>The ticks that the next serial write will take.\<close>

definition next_busy :: "world \<Rightarrow> nat" where
  "next_busy w = (case busy w of [] \<Rightarrow> 0 | b # bs \<Rightarrow> b)"

text \<open>
  The commands of iteration \<open>j\<close> of a periodic task that took the tick count \<open>t0\<close> at its
  entry and runs with a period of \<open>P\<close> ticks: the write of the text, and the request to
  sleep until \<open>P\<close> ticks after the reference \<open>t0 + j * P\<close> (modulo \<open>2 ^ 32\<close>).
\<close>

definition periodic_calls ::
    "config \<Rightarrow> string \<Rightarrow> TickType_t \<Rightarrow> nat \<Rightarrow> nat \<Rightarrow> call list" where
  "periodic_calls cfg name t0 P j =
     [SerialPutString (configUART_PORT cfg) name (length name),
      TaskDelayUntil (t0 + of_nat j * of_nat P) (of_nat P)]"

text \<open>
  The commands of the start-up function: the registration of the default handler for
  vector \<open>v\<close> and the table entry it makes, a serial write of a message with its length,
  the commands up to the banner, and the two creation requests.
\<close>

definition install_call :: "config \<Rightarrow> nat \<Rightarrow> call" where
  "install_call cfg v =
     InstallInterruptHandler UnknownInterruptHandler v v True
       (configMAX_SYSCALL_INTERRUPT_PRIORITY cfg) 1"

definition default_entry :: "config \<Rightarrow> nat \<Rightarrow> vector_entry" where
  "default_entry cfg v =
     \<lparr>ve_handler = UnknownInterruptHandler, ve_parameter = v, ve_edge = True,
      ve_priority = configMAX_SYSCALL_INTERRUPT_PRIORITY cfg, ve_targets = 1\<rparr>"

definition put :: "config \<Rightarrow> string \<Rightarrow> call" where
  "put cfg msg = SerialPutString (configUART_PORT cfg) msg (length msg)"

definition boot_calls :: "config \<Rightarrow> call list" where
  "boot_calls cfg =
     [DISABLE_INTERRUPTS] @ map (install_call cfg) [0..<portMAX_VECTORS cfg] @
     [UARTInitialise (mainPRINT_PORT cfg) (mainPRINT_BAUDRATE cfg) 64, ENABLE_INTERRUPTS,
      put cfg banner]"

definition create_task1 :: "config \<Rightarrow> call" where
  "create_task1 cfg = TaskCreate TaskFunction ''task1'' 128 0 (PRIOR_PERIODIC cfg)"

definition create_task2 :: "config \<Rightarrow> call" where
  "create_task2 cfg = TaskCreate PeriodicTaskFunction ''task2'' 128 1 (PRIOR_FIX_FREQ_PERIODIC cfg)"

text \<open>The kernel's answers to the first and to the second creation request.\<close>

definition first_answer :: "world \<Rightarrow> int" where
  "first_answer w = (case createResults w of [] \<Rightarrow> pdPASS | r # rs \<Rightarrow> r)"

definition second_answer :: "world \<Rightarrow> int" where
  "second_answer w =
     (case createResults w of [] \<Rightarrow> pdPASS
      | r # rs \<Rightarrow> (case rs of [] \<Rightarrow> pdPASS | r2 # rs2 \<Rightarrow> r2))"

text \<open>The start-up function up to the banner (the first five steps of \<open>main\<close>).\<close>

definition main_prologue :: "config \<Rightarrow> world \<Rightarrow> world" where
  "main_prologue cfg w =
     vSerialPutString (configUART_PORT cfg) banner (strlen banner)
       (portENABLE_INTERRUPTS
          (vUARTInitialise (mainPRINT_PORT cfg) (mainPRINT_BAUDRATE cfg) 64
             (install_handlers cfg 0 (portDISABLE_INTERRUPTS w))))"

section \<open>Properties\<close>

subsection \<open>Loops without exit\<close>

lemma for_ever_funpow: "for_ever n body s = NoReturn ((body ^^ n) s)"
  by (induction n arbitrary: s) (simp_all add: funpow_swap1)

lemma for_ever_id: "for_ever n id s = NoReturn s"
  by (simp add: for_ever_funpow)

subsection \<open>The stack-overflow hook\<close>

text \<open>
  C3, as the code has it: whatever the task handle and the task name, the stack-overflow
  hook prints the fixed text "StackOverflowHook\n", which names no task, and then spins
  in its empty loop: for every amount of fuel it has not returned.
\<close>

theorem stack_overflow_hook_fixed_report:
  "vApplicationStackOverflowHook fuel pxTask pcTaskName w =
     NoReturn (w\<lparr>calls := calls w @ [Printf (''StackOverflowHook'' @ [LF]) []]\<rparr>)
   \<and> \<not> returns (vApplicationStackOverflowHook fuel pxTask pcTaskName w)"
  by (simp add: vApplicationStackOverflowHook_def for_ever_id printf_def issue_def)

text \<open>
  C3 as stated fails: called for the task "task1" (handle 1) and for the task "task2"
  (handle 2), the hook does exactly the same; its only output is the fixed text, so the
  offending task is not reported.
\<close>

theorem stack_overflow_hook_counterexample:
  "vApplicationStackOverflowHook 1 1 ''task1'' (world_init [] [] [] False)
     = vApplicationStackOverflowHook 1 2 ''task2'' (world_init [] [] [] False)
   \<and> calls (state_of (vApplicationStackOverflowHook 1 2 ''task2'' (world_init [] [] [] False)))
     = [Printf (''StackOverflowHook'' @ [LF]) []]"
  by (simp add: vApplicationStackOverflowHook_def printf_def issue_def world_init_def)

subsection \<open>The idle hook\<close>

text \<open>
  C5: when no byte has been received the idle hook leaves the world as it is; when the
  read yields the byte \<open>B\<close>, the hook takes it from the receive queue and issues exactly
  two writes of \<open>B\<close>, one after the other, and nothing else.
\<close>

theorem idle_hook_echo:
  "(rx w = [] \<longrightarrow> vApplicationIdleHook cfg w = w) \<and>
   (rx w = B # rest \<longrightarrow>
      vApplicationIdleHook cfg w =
        w\<lparr>rx := rest,
          calls := calls w @ [SerialPutChar (mainPRINT_PORT cfg) B,
                              SerialPutChar (mainPRINT_PORT cfg) B]\<rparr>)"
  by (simp add: vApplicationIdleHook_def xSerialGetChar_def xSerialPutChar_def issue_def)

text \<open>C5 at the state after reset, with nothing received and with the byte "a" received.\<close>

theorem idle_hook_echo_witness:
  "vApplicationIdleHook example_config (world_init [] [] [] False) = world_init [] [] [] False
   \<and> vApplicationIdleHook example_config (world_init [] ''a'' [] False) =
       (world_init [] [] [] False)
         \<lparr>calls := [SerialPutChar 0 (CHR ''a''), SerialPutChar 0 (CHR ''a'')]\<rparr>"
  using idle_hook_echo [where w = "world_init [] [] [] False" and cfg = example_config]
        idle_hook_echo [where w = "world_init [] ''a'' [] False" and B = "CHR ''a''"
          and rest = "[]" and cfg = example_config]
  by (simp add: world_init_def example_config_def)

subsection \<open>The tick hook\<close>

lemma sdiv_1000_nonneg: "0 \<le> (x::int) \<Longrightarrow> x sdiv 1000 = x div 1000"
  by (simp add: signed_divide_int_def sgn_if)

lemma sint_of_nat_32: "n < 2147483648 \<Longrightarrow> sint (of_nat n :: 32 word) = int n"
  by (simp add: signed_of_nat signed_take_bit_int_eq_self)

lemma sint_bound_32: "sint (x :: 32 word) \<le> 2147483647"
  using sint_lt [of x] by simp

lemma sdiv_1000_bound:
  assumes "(x::int) \<le> 2147483647"
  shows "x sdiv 1000 \<le> 2147483"
proof (cases "0 \<le> x")
  case True
  then have "x sdiv 1000 = x div 1000" by (rule sdiv_1000_nonneg)
  also from assms have "\<dots> \<le> 2147483" by linarith
  finally show ?thesis .
next
  case False
  then have "x sdiv 1000 = - (\<bar>x\<bar> div 1000)"
    by (simp add: signed_divide_int_def sgn_if)
  moreover have "0 \<le> \<bar>x\<bar> div 1000"
    by (simp add: pos_imp_zdiv_nonneg_iff)
  ultimately show ?thesis by linarith
qed

lemma sint_inc_32:
  assumes "sint (x :: 32 word) < 2147483647"
  shows "sint (x + 1) = sint x + 1"
proof -
  have "sint (x + 1) = signed_take_bit 31 (sint x + 1)"
    by (simp add: sint_word_ariths)
  moreover have "- (2 ^ 31) \<le> sint x + 1"
    using sint_ge [of x] by simp
  moreover have "sint x + 1 < 2 ^ 31"
    using assms by simp
  ultimately show ?thesis
    by (simp add: signed_take_bit_int_eq_self)
qed

lemma tick_hook_ticks: "ticks (vApplicationTickHook w) = ticks w + 1"
  by (simp add: vApplicationTickHook_def Let_def printf_def issue_def)

lemma tick_hook_calls:
  "calls (vApplicationTickHook w) =
     (if sint (ticks w + 1) smod 1000 = 0
      then calls w @ [elapsed_report (sint (ticks w + 1) sdiv 1000)] else calls w)"
  by (simp add: vApplicationTickHook_def Let_def printf_def issue_def elapsed_report_def)

lemma tick_hook_times_Suc:
  "tick_hook_times (Suc n) w = vApplicationTickHook (tick_hook_times n w)"
  by (simp add: tick_hook_times_def)

lemma tick_hook_times_0: "tick_hook_times 0 w = w"
  by (simp add: tick_hook_times_def)

lemma tick_hook_times_in_range:
  "ticks w = 0 \<Longrightarrow> n \<le> 2147483647 \<Longrightarrow>
     ticks (tick_hook_times n w) = of_nat n \<and>
     calls (tick_hook_times n w) = calls w @ map elapsed_report [1..int (n div 1000)]"
proof (induction n)
  case 0
  then show ?case by (simp add: tick_hook_times_0)
next
  case (Suc n)
  then have t: "ticks (tick_hook_times n w) = of_nat n"
    and c: "calls (tick_hook_times n w) = calls w @ map elapsed_report [1..int (n div 1000)]"
    by simp_all
  have s: "sint (of_nat (Suc n) :: 32 word) = int (Suc n)"
    using Suc.prems by (intro sint_of_nat_32) simp
  have t': "ticks (tick_hook_times n w) + 1 = of_nat (Suc n)"
    by (simp add: t)
  have m: "int (Suc n) smod 1000 = int (Suc n mod 1000)"
    by (simp add: smod_mod_positive zmod_int)
  have d: "int (Suc n) sdiv 1000 = int (Suc n div 1000)"
    by (simp add: sdiv_1000_nonneg zdiv_int)
  show ?case
  proof (cases "Suc n mod 1000 = 0")
    case True
    then have q: "Suc n div 1000 = Suc (n div 1000)"
      by (simp add: div_Suc)
    have "[1..int (Suc (n div 1000))] = [1..int (n div 1000)] @ [int (Suc (n div 1000))]"
      using upto_rec2 [of 1 "int (Suc (n div 1000))"] by simp
    with True show ?thesis
      unfolding tick_hook_times_Suc tick_hook_ticks tick_hook_calls t' s m d q
      by (simp add: c)
  next
    case False
    then have q: "Suc n div 1000 = n div 1000"
      by (simp add: div_Suc)
    from False show ?thesis
      unfolding tick_hook_times_Suc tick_hook_ticks tick_hook_calls t' s m d q
      by (simp add: c)
  qed
qed

lemma tick_reports_bounded:
  "set (calls (tick_hook_times n w)) \<subseteq> set (calls w) \<union> elapsed_report ` {v. v \<le> 2147483}"
proof (induction n)
  case 0
  then show ?case by (simp add: tick_hook_times_0)
next
  case (Suc n)
  have "sint (ticks (tick_hook_times n w) + 1) sdiv 1000 \<le> 2147483"
    by (rule sdiv_1000_bound) (rule sint_bound_32)
  with Suc show ?case
    unfolding tick_hook_times_Suc tick_hook_calls by auto
qed

text \<open>
  C4, as the code has it: every call of the tick hook adds one to the 32-bit counter (as
  a signed value too, unless the counter holds the largest \<open>int\<close>); a
  call after which the counter is not a multiple of 1000 issues nothing; and, starting
  from the counter value 0, after \<open>1000 * k\<close> calls with \<open>1 \<le> k \<le> 2147483\<close> (the counter
  has not passed the largest \<open>int\<close>) exactly \<open>k\<close> reports have been issued, with the
  values 1 to \<open>k\<close> in this order.
\<close>

theorem tick_hook_reports:
  "ticks (vApplicationTickHook w) = ticks w + 1 \<and>
   (sint (ticks w) < 2147483647 \<longrightarrow>
      sint (ticks (vApplicationTickHook w)) = sint (ticks w) + 1) \<and>
   (sint (ticks w + 1) smod 1000 \<noteq> 0 \<longrightarrow> calls (vApplicationTickHook w) = calls w) \<and>
   (ticks w = 0 \<and> 1 \<le> k \<and> k \<le> 2147483 \<longrightarrow>
      calls (tick_hook_times (1000 * k) w) = calls w @ map elapsed_report [1..int k])"
proof (intro conjI impI)
  show "ticks (vApplicationTickHook w) = ticks w + 1"
    by (rule tick_hook_ticks)
  show "sint (ticks (vApplicationTickHook w)) = sint (ticks w) + 1"
    if "sint (ticks w) < 2147483647"
    using that by (simp add: tick_hook_ticks sint_inc_32)
  show "calls (vApplicationTickHook w) = calls w" if "sint (ticks w + 1) smod 1000 \<noteq> 0"
    using that by (simp add: tick_hook_calls)
  show "calls (tick_hook_times (1000 * k) w) = calls w @ map elapsed_report [1..int k]"
    if "ticks w = 0 \<and> 1 \<le> k \<and> k \<le> 2147483"
  proof -
    from that have "1000 * k \<le> 2147483647" by simp
    with that tick_hook_times_in_range [of w "1000 * k"] show ?thesis by simp
  qed
qed

text \<open>C4 at the state after reset, for one call and for 2000 calls.\<close>

theorem tick_hook_reports_witness:
  "calls (tick_hook_times 2000 (world_init [] [] [] False)) = [elapsed_report 1, elapsed_report 2]
   \<and> calls (vApplicationTickHook (world_init [] [] [] False)) = []"
  using tick_hook_reports [where w = "world_init [] [] [] False" and k = 2]
  by (simp add: world_init_def signed_modulo_int_def upto_rec1)

text \<open>
  C4 as stated, for every \<open>k \<ge> 1\<close>, fails at \<open>k = 2147484\<close>: the counter is an \<open>int\<close>, no
  value it takes divided by 1000 exceeds 2147483, so the report of 2147484 seconds is
  never issued, however often the hook is called.
\<close>

theorem tick_hook_counterexample:
  "calls (tick_hook_times (1000 * 2147484) (world_init [] [] [] False))
     \<noteq> map elapsed_report [1..2147484]"
proof
  assume a: "calls (tick_hook_times (1000 * 2147484) (world_init [] [] [] False))
     = map elapsed_report [1..2147484]"
  have "elapsed_report 2147484 \<in> set (map elapsed_report [1..2147484])"
    by simp
  with a tick_reports_bounded [of "1000 * 2147484" "world_init [] [] [] False"]
  have "elapsed_report 2147484 \<in> elapsed_report ` {v. v \<le> 2147483}"
    by (auto simp: world_init_def)
  then show False
    by (auto simp: elapsed_report_def)
qed


subsection \<open>The aperiodic task\<close>

lemma put_string_calls [simp]:
  "calls (vSerialPutString port s n w) = calls w @ [SerialPutString port s n]"
  by (simp add: vSerialPutString_def issue_def)

lemma put_string_tickCount [simp]:
  "tickCount (vSerialPutString port s n w) = tickCount w + next_busy w"
  by (simp add: vSerialPutString_def issue_def next_busy_def)

lemma put_string_busy [simp]:
  "busy (vSerialPutString port s n w) = tl (busy w)"
  by (simp add: vSerialPutString_def issue_def)

lemma task_body_calls:
  "calls (vTaskFunction_body cfg name d w) =
     calls w @ [SerialPutString (configUART_PORT cfg) name (length name),
                TaskDelay (d div portTICK_RATE_MS cfg)]"
  by (simp add: vTaskFunction_body_def vTaskDelay_def issue_def strlen_def)

lemma task_body_tickCount:
  "tickCount (vTaskFunction_body cfg name d w) =
     tickCount w + next_busy w + d div portTICK_RATE_MS cfg"
  by (simp add: vTaskFunction_body_def vTaskDelay_def issue_def)

lemma concat_replicate_snoc: "concat (replicate i xs) @ xs = xs @ concat (replicate i xs)"
  by (induction i) simp_all

lemma task_loop_calls:
  "calls ((vTaskFunction_body cfg name d ^^ i) w) =
     calls w @ concat (replicate i [SerialPutString (configUART_PORT cfg) name (length name),
                                    TaskDelay (d div portTICK_RATE_MS cfg)])"
  by (induction i) (simp_all add: task_body_calls concat_replicate_snoc)

lemma task_run:
  "vTaskFunction_entry params = (name, d) \<Longrightarrow>
     vTaskFunction cfg i params w = NoReturn ((vTaskFunction_body cfg name d ^^ i) w)"
  by (simp add: vTaskFunction_def for_ever_funpow)

text \<open>
  C2: with a positive number of milliseconds per tick, and \<open>(name, d)\<close> the text and the
  period taken at entry, the aperiodic task never returns: each iteration writes the text
  to the serial port and then asks for a relative delay of \<open>P = d div portTICK_RATE_MS\<close>
  ticks, the period in milliseconds converted to ticks and rounded down. The tick count
  at one wake is at least \<open>P\<close> more than at the wake before.
\<close>

theorem aperiodic_task:
  assumes "0 < portTICK_RATE_MS cfg"
    and "vTaskFunction_entry params = (name, d)"
    and "P = d div portTICK_RATE_MS cfg"
  shows "\<not> returns (vTaskFunction cfg i params w) \<and>
    calls (state_of (vTaskFunction cfg i params w)) =
      calls w @ concat (replicate i [SerialPutString (configUART_PORT cfg) name (length name),
                                     TaskDelay P]) \<and>
    tickCount (state_of (vTaskFunction cfg i params w)) + P
      \<le> tickCount (state_of (vTaskFunction cfg (Suc i) params w)) \<and>
    P * portTICK_RATE_MS cfg \<le> d \<and> d < (P + 1) * portTICK_RATE_MS cfg"
proof (intro conjI)
  note run = task_run [OF assms(2)]
  show "\<not> returns (vTaskFunction cfg i params w)"
    by (simp add: run)
  show "calls (state_of (vTaskFunction cfg i params w)) =
      calls w @ concat (replicate i [SerialPutString (configUART_PORT cfg) name (length name),
                                     TaskDelay P])"
    by (simp add: run task_loop_calls assms(3))
  show "tickCount (state_of (vTaskFunction cfg i params w)) + P
      \<le> tickCount (state_of (vTaskFunction cfg (Suc i) params w))"
    by (simp add: run task_body_tickCount assms(3))
  show "P * portTICK_RATE_MS cfg \<le> d"
    by (simp add: assms(3))
  show "d < (P + 1) * portTICK_RATE_MS cfg"
    using assms(1) dividend_less_div_times [of "portTICK_RATE_MS cfg" d]
    by (simp add: assms(3) algebra_simps)
qed

text \<open>C2 for the text "Hi" and a period of 1000 ms, the first write taking 5 ticks.\<close>

theorem aperiodic_task_witness:
  "(0::nat) < 1 \<and>
   calls (state_of (vTaskFunction example_config (Suc (Suc 0)) (Some \<lparr>text' = Some ''Hi'', delay = 1000\<rparr>)
       (world_init [5] [] [] False))) =
     [SerialPutString 0 ''Hi'' (length ''Hi''), TaskDelay 1000, SerialPutString 0 ''Hi'' (length ''Hi''), TaskDelay 1000] \<and>
   tickCount (state_of (vTaskFunction example_config (Suc (Suc 0)) (Some \<lparr>text' = Some ''Hi'', delay = 1000\<rparr>)
       (world_init [5] [] [] False))) + 1000
     \<le> tickCount (state_of (vTaskFunction example_config (Suc (Suc (Suc 0)))
       (Some \<lparr>text' = Some ''Hi'', delay = 1000\<rparr>) (world_init [5] [] [] False)))"
  using aperiodic_task [where cfg = example_config and name = "''Hi''" and d = 1000
      and params = "Some \<lparr>text' = Some ''Hi'', delay = 1000\<rparr>" and P = 1000 and i = "Suc (Suc 0)"
      and w = "world_init [5] [] [] False"]
  by (simp add: example_config_def vTaskFunction_entry_def world_init_def)

subsection \<open>The fixed-frequency task\<close>

lemma next_busy_drop:
  assumes "\<forall>b\<in>set bs. b < P"
  shows "(case drop i bs of [] \<Rightarrow> 0 | b # r \<Rightarrow> b) \<le> (P::nat)"
proof (cases "drop i bs")
  case Nil
  then show ?thesis by simp
next
  case (Cons b r)
  then have "b \<in> set (drop i bs)" by simp
  then have "b \<in> set bs" by (rule in_set_dropD)
  with assms Cons show ?thesis by auto
qed

lemma periodic_body_unfold:
  "vPeriodicTaskFunction_body cfg name d (l, w) =
     (l + of_nat (d div portTICK_RATE_MS cfg),
      w\<lparr>tickCount :=
          max (tickCount w + next_busy w)
            (tickCount w + next_busy w - unat (of_nat (tickCount w + next_busy w) - l)
               + unat (of_nat (d div portTICK_RATE_MS cfg) :: TickType_t)),
        busy := tl (busy w),
        calls := calls w @ [SerialPutString (configUART_PORT cfg) name (length name),
                            TaskDelayUntil l (of_nat (d div portTICK_RATE_MS cfg))]\<rparr>)"
  by (simp add: vPeriodicTaskFunction_body_def vTaskDelayUntil_def vSerialPutString_def
      issue_def next_busy_def strlen_def Let_def)

lemma periodic_body_fst:
  "fst (vPeriodicTaskFunction_body cfg name d s) = fst s + of_nat (d div portTICK_RATE_MS cfg)"
  by (cases s) (simp add: periodic_body_unfold)

lemma periodic_body_calls:
  "calls (snd (vPeriodicTaskFunction_body cfg name d s)) =
     calls (snd s) @ [SerialPutString (configUART_PORT cfg) name (length name),
                      TaskDelayUntil (fst s) (of_nat (d div portTICK_RATE_MS cfg))]"
  by (cases s) (simp add: periodic_body_unfold)

lemma periodic_calls_fun:
  "periodic_calls cfg name t0 P =
     (\<lambda>j. [SerialPutString (configUART_PORT cfg) name (length name),
           TaskDelayUntil (t0 + of_nat j * of_nat P) (of_nat P)])"
  by (rule ext) (simp add: periodic_calls_def)

text \<open>The log of the loop, whatever time the bodies take.\<close>

lemma periodic_loop_log:
  assumes "P = d div portTICK_RATE_MS cfg"
  shows "fst ((vPeriodicTaskFunction_body cfg name d ^^ i) (l, w)) = l + of_nat i * of_nat P \<and>
    calls (snd ((vPeriodicTaskFunction_body cfg name d ^^ i) (l, w))) =
      calls w @ concat (map (periodic_calls cfg name l P) [0..<i])"
proof (induction i)
  case 0
  then show ?case by simp
next
  case (Suc i)
  then have f: "fst ((vPeriodicTaskFunction_body cfg name d ^^ i) (l, w)) = l + of_nat i * of_nat P"
    and c: "calls (snd ((vPeriodicTaskFunction_body cfg name d ^^ i) (l, w))) =
      calls w @ concat (map (periodic_calls cfg name l P) [0..<i])"
    by simp_all
  have pc: "periodic_calls cfg name l P i =
      [SerialPutString (configUART_PORT cfg) name (length name),
       TaskDelayUntil (l + of_nat i * of_nat P) (of_nat P)]"
    by (simp add: periodic_calls_def)
  have r: "l + of_nat i * of_nat P + of_nat P = l + of_nat (Suc i) * (of_nat P :: TickType_t)"
    by (simp add: algebra_simps)
  show ?case
    unfolding funpow.simps o_apply periodic_body_fst periodic_body_calls f c
      assms [symmetric] r
    by (simp add: pc)
qed

lemma unat_of_nat_tick: "n < 4294967296 \<Longrightarrow> unat (of_nat n :: TickType_t) = n"
  by (simp add: unat_of_nat)

text \<open>The wakes of the loop when no body overruns the period.\<close>

lemma periodic_loop_wake:
  assumes "\<forall>b\<in>set (busy w). b < P" and "P = d div portTICK_RATE_MS cfg"
    and "P < 4294967296"
  shows "fst ((vPeriodicTaskFunction_body cfg name d ^^ i) (of_nat (tickCount w), w))
      = of_nat (tickCount w + i * P) \<and>
    tickCount (snd ((vPeriodicTaskFunction_body cfg name d ^^ i) (of_nat (tickCount w), w)))
      = tickCount w + i * P \<and>
    busy (snd ((vPeriodicTaskFunction_body cfg name d ^^ i) (of_nat (tickCount w), w)))
      = drop i (busy w)"
proof (induction i)
  case 0
  then show ?case by simp
next
  case (Suc i)
  obtain l wi
    where s: "(vPeriodicTaskFunction_body cfg name d ^^ i) (of_nat (tickCount w), w) = (l, wi)"
    by (cases "(vPeriodicTaskFunction_body cfg name d ^^ i) (of_nat (tickCount w), w)")
  with Suc have l: "l = of_nat (tickCount w + i * P)"
    and t: "tickCount wi = tickCount w + i * P"
    and b: "busy wi = drop i (busy w)"
    by simp_all
  have nb: "next_busy wi \<le> P"
    unfolding next_busy_def b using assms(1) by (rule next_busy_drop)
  with assms(3) have nb32: "next_busy wi < 4294967296"
    by simp
  have late: "unat (of_nat (tickCount wi + next_busy wi) - l) = next_busy wi"
    by (simp add: l t unat_of_nat_tick [OF nb32])
  have incr: "unat (of_nat P :: TickType_t) = P"
    using assms(3) by (rule unat_of_nat_tick)
  have d: "tl (drop i (busy w)) = drop (Suc i) (busy w)"
    by (simp add: drop_Suc tl_drop)
  have step: "(vPeriodicTaskFunction_body cfg name d ^^ Suc i) (of_nat (tickCount w), w) =
      (l + of_nat P,
       wi\<lparr>tickCount := max (tickCount wi + next_busy wi) (tickCount wi + P),
          busy := tl (busy wi),
          calls := calls wi @ [SerialPutString (configUART_PORT cfg) name (length name),
                               TaskDelayUntil l (of_nat P)]\<rparr>)"
    unfolding funpow.simps o_apply s periodic_body_unfold assms(2) [symmetric] late incr
    by simp
  from nb show ?case
    unfolding step by (simp add: t b d l max_def)
qed

lemma periodic_run:
  "vPeriodicTaskFunction_entry params = (name, d) \<Longrightarrow>
     vPeriodicTaskFunction cfg i params w =
       NoReturn (snd ((vPeriodicTaskFunction_body cfg name d ^^ i) (of_nat (tickCount w), w)))"
  by (simp add: vPeriodicTaskFunction_def for_ever_funpow xTaskGetTickCount_def)

text \<open>
  C1: let \<open>(name, d)\<close> be the text and the period taken at entry and \<open>P = d div
  portTICK_RATE_MS\<close>. Whatever time the bodies take, the periodic task never returns and
  takes the tick count once, at entry: iteration \<open>j\<close> writes the text and then asks to
  sleep until \<open>P\<close> ticks after the reference, and the reference of iteration \<open>j\<close> is the
  entry tick count plus \<open>j * P\<close> (as a \<open>TickType_t\<close>), so each call advances it by exactly
  \<open>P\<close>. When moreover every body execution takes less than \<open>P\<close> ticks (and the period
  fits a \<open>TickType_t\<close>), the task wakes from iteration \<open>i\<close> at the entry tick plus \<open>i * P\<close>:
  consecutive wakes are exactly \<open>P\<close> ticks apart.
\<close>

theorem periodic_task:
  assumes "0 < portTICK_RATE_MS cfg"
    and "vPeriodicTaskFunction_entry params = (name, d)"
    and "P = d div portTICK_RATE_MS cfg"
  shows "\<not> returns (vPeriodicTaskFunction cfg i params w) \<and>
    calls (state_of (vPeriodicTaskFunction cfg i params w)) =
      calls w @ concat (map (periodic_calls cfg name (xTaskGetTickCount w) P) [0..<i]) \<and>
    (d < 4294967296 \<and> (\<forall>b\<in>set (busy w). b < P) \<longrightarrow>
       tickCount (state_of (vPeriodicTaskFunction cfg i params w)) = tickCount w + i * P \<and>
       tickCount (state_of (vPeriodicTaskFunction cfg (Suc i) params w)) =
         tickCount (state_of (vPeriodicTaskFunction cfg i params w)) + P)"
proof (intro conjI impI)
  note run = periodic_run [OF assms(2)]
  show "\<not> returns (vPeriodicTaskFunction cfg i params w)"
    by (simp add: run)
  show "calls (state_of (vPeriodicTaskFunction cfg i params w)) =
      calls w @ concat (map (periodic_calls cfg name (xTaskGetTickCount w) P) [0..<i])"
    using periodic_loop_log [OF assms(3), where name = name and i = i
        and l = "of_nat (tickCount w)" and w = w]
    by (simp add: run xTaskGetTickCount_def)
  assume h: "d < 4294967296 \<and> (\<forall>b\<in>set (busy w). b < P)"
  have "P \<le> d"
    unfolding assms(3) by (rule div_le_dividend)
  with h have p: "P < 4294967296"
    by simp
  from h have bs: "\<forall>b\<in>set (busy w). b < P"
    by simp
  note wake = periodic_loop_wake [OF bs assms(3) p, where name = name]
  show "tickCount (state_of (vPeriodicTaskFunction cfg i params w)) = tickCount w + i * P"
    using wake [of i] by (simp add: run)
  show "tickCount (state_of (vPeriodicTaskFunction cfg (Suc i) params w)) =
         tickCount (state_of (vPeriodicTaskFunction cfg i params w)) + P"
    using wake [of i] wake [of "Suc i"] by (simp add: run)
qed

text \<open>
  C1 for the text "Hi" and a period of 3000 ms. First a task entered at tick 4294966000,
  with bodies of 5 and 2999 ticks: the reference wraps to 1704 and the wakes are 3000
  ticks apart. Then a task entered at tick 0 whose second body takes 4000 ticks: the
  references are 0, 3000 and 6000 all the same.
\<close>

theorem periodic_task_witness:
  "(0::nat) < 1 \<and>
   calls (state_of (vPeriodicTaskFunction example_config (Suc (Suc 0))
       (Some \<lparr>text' = Some ''Hi'', delay = 3000\<rparr>)
       ((world_init [5, 2999] [] [] False)\<lparr>tickCount := 4294966000\<rparr>))) =
     [SerialPutString 0 ''Hi'' (length ''Hi''), TaskDelayUntil 4294966000 3000,
      SerialPutString 0 ''Hi'' (length ''Hi''), TaskDelayUntil 1704 3000] \<and>
   tickCount (state_of (vPeriodicTaskFunction example_config (Suc (Suc 0))
       (Some \<lparr>text' = Some ''Hi'', delay = 3000\<rparr>)
       ((world_init [5, 2999] [] [] False)\<lparr>tickCount := 4294966000\<rparr>))) = 4294972000 \<and>
   tickCount (state_of (vPeriodicTaskFunction example_config (Suc (Suc (Suc 0)))
       (Some \<lparr>text' = Some ''Hi'', delay = 3000\<rparr>)
       ((world_init [5, 2999] [] [] False)\<lparr>tickCount := 4294966000\<rparr>))) = 4294975000 \<and>
   calls (state_of (vPeriodicTaskFunction example_config (Suc (Suc (Suc 0)))
       (Some \<lparr>text' = Some ''Hi'', delay = 3000\<rparr>) (world_init [5, 4000] [] [] False))) =
     [SerialPutString 0 ''Hi'' (length ''Hi''), TaskDelayUntil 0 3000,
      SerialPutString 0 ''Hi'' (length ''Hi''), TaskDelayUntil 3000 3000,
      SerialPutString 0 ''Hi'' (length ''Hi''), TaskDelayUntil 6000 3000]"
  using periodic_task [where cfg = example_config and name = "''Hi''" and d = 3000
      and params = "Some \<lparr>text' = Some ''Hi'', delay = 3000\<rparr>" and P = 3000 and i = "Suc (Suc 0)"
      and w = "(world_init [5, 2999] [] [] False)\<lparr>tickCount := 4294966000\<rparr>"]
    periodic_task [where cfg = example_config and name = "''Hi''" and d = 3000
      and params = "Some \<lparr>text' = Some ''Hi'', delay = 3000\<rparr>" and P = 3000
      and i = "Suc (Suc (Suc 0))" and w = "world_init [5, 4000] [] [] False"]
  by (simp add: example_config_def vPeriodicTaskFunction_entry_def world_init_def
      xTaskGetTickCount_def periodic_calls_def)

subsection \<open>Default parameters\<close>

text \<open>
  C10: in both task functions a null parameter pointer gives the sentinel text
  "<NO TEXT>\r\n" and the default period 1000; a descriptor whose text is null gives the
  sentinel text with the descriptor's own period; and the period of a non-null
  descriptor is always the descriptor's, whatever its value. Both task functions use
  these values: every iteration writes the substituted text with its length and asks
  for a delay of the substituted period (divided by \<open>portTICK_RATE_MS\<close>), so that a run
  on a null pointer or on a null text is the run on a descriptor holding the
  substituted values.
\<close>

theorem default_substitution:
  "vTaskFunction_entry None = (''<NO TEXT>'' @ [CR, LF], 1000) \<and>
   vPeriodicTaskFunction_entry None = (''<NO TEXT>'' @ [CR, LF], 1000) \<and>
   vTaskFunction_entry (Some \<lparr>text' = None, delay = d\<rparr>) = (''<NO TEXT>'' @ [CR, LF], d) \<and>
   vPeriodicTaskFunction_entry (Some \<lparr>text' = None, delay = d\<rparr>) = (''<NO TEXT>'' @ [CR, LF], d) \<and>
   snd (vTaskFunction_entry (Some p)) = delay p \<and>
   snd (vPeriodicTaskFunction_entry (Some p)) = delay p \<and>
   vTaskFunction cfg fuel None w =
     vTaskFunction cfg fuel (Some \<lparr>text' = Some defaultText, delay = defaultDelay\<rparr>) w \<and>
   vTaskFunction cfg fuel (Some \<lparr>text' = None, delay = d\<rparr>) w =
     vTaskFunction cfg fuel (Some \<lparr>text' = Some defaultText, delay = d\<rparr>) w \<and>
   vPeriodicTaskFunction cfg fuel None w =
     vPeriodicTaskFunction cfg fuel (Some \<lparr>text' = Some defaultText, delay = defaultDelay\<rparr>) w \<and>
   vPeriodicTaskFunction cfg fuel (Some \<lparr>text' = None, delay = d\<rparr>) w =
     vPeriodicTaskFunction cfg fuel (Some \<lparr>text' = Some defaultText, delay = d\<rparr>) w \<and>
   calls (state_of (vTaskFunction cfg fuel None w)) =
     calls w @ concat (replicate fuel
       [SerialPutString (configUART_PORT cfg) (''<NO TEXT>'' @ [CR, LF]) 11,
        TaskDelay (1000 div portTICK_RATE_MS cfg)]) \<and>
   calls (state_of (vTaskFunction cfg fuel (Some \<lparr>text' = None, delay = d\<rparr>) w)) =
     calls w @ concat (replicate fuel
       [SerialPutString (configUART_PORT cfg) (''<NO TEXT>'' @ [CR, LF]) 11,
        TaskDelay (d div portTICK_RATE_MS cfg)]) \<and>
   calls (state_of (vTaskFunction cfg fuel (Some \<lparr>text' = Some t, delay = d\<rparr>) w)) =
     calls w @ concat (replicate fuel
       [SerialPutString (configUART_PORT cfg) t (length t),
        TaskDelay (d div portTICK_RATE_MS cfg)]) \<and>
   calls (state_of (vPeriodicTaskFunction cfg fuel None w)) =
     calls w @ concat (map (\<lambda>j.
       [SerialPutString (configUART_PORT cfg) (''<NO TEXT>'' @ [CR, LF]) 11,
        TaskDelayUntil (xTaskGetTickCount w
            + of_nat j * of_nat (1000 div portTICK_RATE_MS cfg))
          (of_nat (1000 div portTICK_RATE_MS cfg))]) [0..<fuel]) \<and>
   calls (state_of (vPeriodicTaskFunction cfg fuel (Some \<lparr>text' = None, delay = d\<rparr>) w)) =
     calls w @ concat (map (\<lambda>j.
       [SerialPutString (configUART_PORT cfg) (''<NO TEXT>'' @ [CR, LF]) 11,
        TaskDelayUntil (xTaskGetTickCount w + of_nat j * of_nat (d div portTICK_RATE_MS cfg))
          (of_nat (d div portTICK_RATE_MS cfg))]) [0..<fuel]) \<and>
   calls (state_of (vPeriodicTaskFunction cfg fuel (Some \<lparr>text' = Some t, delay = d\<rparr>) w)) =
     calls w @ concat (map (\<lambda>j.
       [SerialPutString (configUART_PORT cfg) t (length t),
        TaskDelayUntil (xTaskGetTickCount w + of_nat j * of_nat (d div portTICK_RATE_MS cfg))
          (of_nat (d div portTICK_RATE_MS cfg))]) [0..<fuel])"
proof -
  have e: "vTaskFunction_entry None = (''<NO TEXT>'' @ [CR, LF], 1000)"
    "vTaskFunction_entry (Some \<lparr>text' = None, delay = d\<rparr>) = (''<NO TEXT>'' @ [CR, LF], d)"
    "vTaskFunction_entry (Some \<lparr>text' = Some t, delay = d\<rparr>) = (t, d)"
    by (simp_all add: vTaskFunction_entry_def defaultText_def defaultDelay_def)
  have pe: "vPeriodicTaskFunction_entry None = (''<NO TEXT>'' @ [CR, LF], 1000)"
    "vPeriodicTaskFunction_entry (Some \<lparr>text' = None, delay = d\<rparr>) = (''<NO TEXT>'' @ [CR, LF], d)"
    "vPeriodicTaskFunction_entry (Some \<lparr>text' = Some t, delay = d\<rparr>) = (t, d)"
    by (simp_all add: vPeriodicTaskFunction_entry_def defaultText_def defaultDelay_def)
  have same: "vTaskFunction cfg fuel None w =
      vTaskFunction cfg fuel (Some \<lparr>text' = Some defaultText, delay = defaultDelay\<rparr>) w"
    "vTaskFunction cfg fuel (Some \<lparr>text' = None, delay = d\<rparr>) w =
      vTaskFunction cfg fuel (Some \<lparr>text' = Some defaultText, delay = d\<rparr>) w"
    "vPeriodicTaskFunction cfg fuel None w =
      vPeriodicTaskFunction cfg fuel (Some \<lparr>text' = Some defaultText, delay = defaultDelay\<rparr>) w"
    "vPeriodicTaskFunction cfg fuel (Some \<lparr>text' = None, delay = d\<rparr>) w =
      vPeriodicTaskFunction cfg fuel (Some \<lparr>text' = Some defaultText, delay = d\<rparr>) w"
    by (simp_all add: vTaskFunction_entry_def vPeriodicTaskFunction_entry_def vTaskFunction_def
        vPeriodicTaskFunction_def)
  have snds: "snd (vTaskFunction_entry (Some p)) = delay p"
    "snd (vPeriodicTaskFunction_entry (Some p)) = delay p"
    by (simp_all add: vTaskFunction_entry_def vPeriodicTaskFunction_entry_def)
  have runs: "calls (state_of (vTaskFunction cfg fuel ps w)) =
      calls w @ concat (replicate fuel
        [SerialPutString (configUART_PORT cfg) n (length n),
         TaskDelay (k div portTICK_RATE_MS cfg)])"
    if "vTaskFunction_entry ps = (n, k)" for ps n k
    by (simp add: task_run [OF that] task_loop_calls)
  have pruns: "calls (state_of (vPeriodicTaskFunction cfg fuel ps w)) =
      calls w @ concat (map (\<lambda>j.
        [SerialPutString (configUART_PORT cfg) n (length n),
         TaskDelayUntil (xTaskGetTickCount w + of_nat j * of_nat (k div portTICK_RATE_MS cfg))
           (of_nat (k div portTICK_RATE_MS cfg))]) [0..<fuel])"
    if "vPeriodicTaskFunction_entry ps = (n, k)" for ps n k
    using periodic_loop_log [where P = "k div portTICK_RATE_MS cfg" and d = k and cfg = cfg
        and name = n and i = fuel and l = "of_nat (tickCount w)" and w = w, OF refl]
    by (simp add: periodic_run [OF that] xTaskGetTickCount_def periodic_calls_fun)
  have len: "length (''<NO TEXT>'' @ [CR, LF]) = 11"
    by simp
  note r = runs [OF e(1), unfolded len] runs [OF e(2), unfolded len] runs [OF e(3)]
    pruns [OF pe(1), unfolded len] pruns [OF pe(2), unfolded len] pruns [OF pe(3)]
  show ?thesis
    by (intro conjI) (rule e(1,2) pe(1,2) snds same r)+
qed

text \<open>
  C10 on one iteration of each task, for a null pointer and for the descriptor with a
  null text and the period 250.
\<close>

theorem default_substitution_witness:
  "calls (state_of (vTaskFunction example_config (Suc 0) None (world_init [] [] [] False))) =
     [SerialPutString 0 (''<NO TEXT>'' @ [CR, LF]) 11, TaskDelay 1000] \<and>
   calls (state_of (vTaskFunction example_config (Suc 0) (Some \<lparr>text' = None, delay = 250\<rparr>)
       (world_init [] [] [] False))) =
     [SerialPutString 0 (''<NO TEXT>'' @ [CR, LF]) 11, TaskDelay 250] \<and>
   calls (state_of (vPeriodicTaskFunction example_config (Suc 0) None
       (world_init [] [] [] False))) =
     [SerialPutString 0 (''<NO TEXT>'' @ [CR, LF]) 11, TaskDelayUntil 0 1000] \<and>
   calls (state_of (vPeriodicTaskFunction example_config (Suc 0)
       (Some \<lparr>text' = None, delay = 250\<rparr>) (world_init [] [] [] False))) =
     [SerialPutString 0 (''<NO TEXT>'' @ [CR, LF]) 11, TaskDelayUntil 0 250]"
  using default_substitution [where cfg = example_config and fuel = "Suc 0" and d = 250
      and w = "world_init [] [] [] False" and p = "\<lparr>text' = None, delay = 250\<rparr>"
      and t = "''Hi''"]
  apply (elim conjE)
  apply (thin_tac "vTaskFunction _ _ _ _ = _")+
  apply (thin_tac "vPeriodicTaskFunction _ _ _ _ = _")+
  apply (simp add: example_config_def world_init_def xTaskGetTickCount_def)
  done

subsection \<open>The start-up function\<close>

lemma install_handlers_closed:
  "install_handlers cfg v w =
     w\<lparr>calls := calls w @ map (install_call cfg) [v..<portMAX_VECTORS cfg],
       vectors := rev (map (\<lambda>u. (u, default_entry cfg u)) [v..<portMAX_VECTORS cfg]) @ vectors w\<rparr>"
proof (induction cfg v w rule: install_handlers.induct)
  case (1 cfg ulVector w)
  let ?w' = "vPortInstallInterruptHandler UnknownInterruptHandler ulVector ulVector True
                (configMAX_SYSCALL_INTERRUPT_PRIORITY cfg) 1 w"
  show ?case
  proof (cases "ulVector < portMAX_VECTORS cfg")
    case True
    then have u: "[ulVector..<portMAX_VECTORS cfg] = ulVector # [ulVector + 1..<portMAX_VECTORS cfg]"
      by (simp add: upt_conv_Cons)
    from True have "install_handlers cfg ulVector w = install_handlers cfg (ulVector + 1) ?w'"
      by (subst install_handlers.simps) simp
    also from True have "\<dots> =
        ?w'\<lparr>calls := calls ?w' @ map (install_call cfg) [ulVector + 1..<portMAX_VECTORS cfg],
           vectors := rev (map (\<lambda>u. (u, default_entry cfg u)) [ulVector + 1..<portMAX_VECTORS cfg])
                        @ vectors ?w'\<rparr>"
      by (rule "1.IH")
    also have "\<dots> =
        w\<lparr>calls := calls w @ map (install_call cfg) (ulVector # [ulVector + 1..<portMAX_VECTORS cfg]),
          vectors := rev (map (\<lambda>u. (u, default_entry cfg u))
                            (ulVector # [ulVector + 1..<portMAX_VECTORS cfg])) @ vectors w\<rparr>"
      by (simp add: vPortInstallInterruptHandler_def issue_def install_call_def default_entry_def)
    finally show ?thesis
      unfolding u .
  next
    case False
    then show ?thesis
      by (subst install_handlers.simps) simp
  qed
qed

lemma handler_of_install_handlers:
  "handler_of (install_handlers cfg a w) v =
     (if a \<le> v \<and> v < portMAX_VECTORS cfg then Some (default_entry cfg v) else handler_of w v)"
proof (induction cfg a w rule: install_handlers.induct)
  case (1 cfg ulVector w)
  let ?w' = "vPortInstallInterruptHandler UnknownInterruptHandler ulVector ulVector True
                (configMAX_SYSCALL_INTERRUPT_PRIORITY cfg) 1 w"
  show ?case
  proof (cases "ulVector < portMAX_VECTORS cfg")
    case True
    then have step: "install_handlers cfg ulVector w = install_handlers cfg (ulVector + 1) ?w'"
      by (subst install_handlers.simps) simp
    have h: "handler_of ?w' v =
        (if v = ulVector then Some (default_entry cfg ulVector) else handler_of w v)"
      by (simp add: handler_of_def vPortInstallInterruptHandler_def issue_def default_entry_def)
    from True show ?thesis
      unfolding step "1.IH" [OF True] h by auto
  next
    case False
    then show ?thesis
      by (subst install_handlers.simps) auto
  qed
qed

lemma issue_simps [simp]:
  "calls (issue c w) = calls w @ [c]"
  "tParam (issue c w) = tParam w"
  "createResults (issue c w) = createResults w"
  "schedulerReturns (issue c w) = schedulerReturns w"
  "vectors (issue c w) = vectors w"
  by (simp_all add: issue_def)

lemma xTaskCreate_fst: "fst (xTaskCreate c n d p pr w) = first_answer w"
  by (simp add: xTaskCreate_def first_answer_def)

lemma xTaskCreate_snd:
  "snd (xTaskCreate c n d p pr w) =
     issue (TaskCreate c n d p pr) (w\<lparr>createResults := tl (createResults w)\<rparr>)"
  by (simp add: xTaskCreate_def)

lemma first_answer_next:
  "first_answer (issue c (w'\<lparr>createResults := tl (createResults w)\<rparr>)) = second_answer w"
  by (simp add: first_answer_def second_answer_def split: list.split)

lemma prologue_calls: "calls (main_prologue cfg w) = calls w @ boot_calls cfg"
  by (simp add: main_prologue_def install_handlers_closed portENABLE_INTERRUPTS_def
      portDISABLE_INTERRUPTS_def vUARTInitialise_def issue_def boot_calls_def put_def strlen_def)

lemma prologue_frame:
  "tParam (main_prologue cfg w) = tParam w"
  "createResults (main_prologue cfg w) = createResults w"
  "schedulerReturns (main_prologue cfg w) = schedulerReturns w"
  "vectors (main_prologue cfg w) = vectors (install_handlers cfg 0 (portDISABLE_INTERRUPTS w))"
  by (simp_all add: main_prologue_def install_handlers_closed portENABLE_INTERRUPTS_def
      portDISABLE_INTERRUPTS_def vUARTInitialise_def vSerialPutString_def issue_def)

lemma handler_of_installed:
  "v < portMAX_VECTORS cfg \<Longrightarrow>
     handler_of (install_handlers cfg 0 w) v = Some (default_entry cfg v)"
  by (simp add: handler_of_install_handlers)

lemma put_string_frame:
  "tParam (vSerialPutString port s n w) = tParam w"
  "createResults (vSerialPutString port s n w) = createResults w"
  "schedulerReturns (vSerialPutString port s n w) = schedulerReturns w"
  "vectors (vSerialPutString port s n w) = vectors w"
  by (simp_all add: vSerialPutString_def issue_def)

lemma first_answer_prologue [simp]: "first_answer (main_prologue cfg w) = first_answer w"
  by (simp add: first_answer_def prologue_frame)

lemma second_answer_prologue [simp]: "second_answer (main_prologue cfg w) = second_answer w"
  by (simp add: second_answer_def prologue_frame)

lemma main_unfold:
  "main cfg fuel w =
     (let w5 = main_prologue cfg w;
          w6 = issue (create_task1 cfg) (w5\<lparr>createResults := tl (createResults w5)\<rparr>);
          w7 = issue (create_task2 cfg) (w6\<lparr>createResults := tl (createResults w6)\<rparr>);
          w9 = vSerialPutString (configUART_PORT cfg) msg_enter (strlen msg_enter)
                 (vSerialPutString (configUART_PORT cfg) msg_keyboard (strlen msg_keyboard) w7);
          w10 = issue TaskStartScheduler w9
      in if pdPASS \<noteq> first_answer w
         then NoReturn (vSerialPutString (configUART_PORT cfg) msg_task1 (strlen msg_task1) w6)
         else if pdPASS \<noteq> second_answer w
         then NoReturn (vSerialPutString (configUART_PORT cfg) msg_task2 (strlen msg_task2) w7)
         else if schedulerReturns w
         then NoReturn (vSerialPutString (configUART_PORT cfg) msg_scheduler
                          (strlen msg_scheduler) w10)
         else NoReturn w10)"
  unfolding main_def Let_def main_prologue_def [symmetric]
  by (simp add: split_def xTaskCreate_fst xTaskCreate_snd first_answer_next
      report_and_halt_def for_ever_id vTaskStartScheduler_def prologue_frame put_string_frame
      create_task1_def create_task2_def)


lemma main_no_return: "\<not> returns (main cfg fuel w)"
  by (simp add: main_unfold Let_def)

lemma main_calls:
  "calls (state_of (main cfg fuel w)) =
     calls w @ boot_calls cfg @
       (if pdPASS \<noteq> first_answer w then [create_task1 cfg, put cfg msg_task1]
        else if pdPASS \<noteq> second_answer w
        then [create_task1 cfg, create_task2 cfg, put cfg msg_task2]
        else [create_task1 cfg, create_task2 cfg, put cfg msg_keyboard, put cfg msg_enter,
              TaskStartScheduler] @
             (if schedulerReturns w then [put cfg msg_scheduler] else []))"
  by (simp add: main_unfold Let_def prologue_calls put_def strlen_def)

lemma main_frame:
  "tParam (state_of (main cfg fuel w)) = tParam w"
  "vectors (state_of (main cfg fuel w)) = vectors (install_handlers cfg 0 (portDISABLE_INTERRUPTS w))"
  by (simp_all add: main_unfold Let_def prologue_frame put_string_frame)




text \<open>
  C7: when both creations succeed and the scheduler start comes back, the start-up
  function writes "Could not start the scheduler!!!" to the serial port and spins: for
  every amount of fuel it has not returned, and the diagnostic is the only command issued
  after the scheduler start.
\<close>

theorem scheduler_return_halts:
  "first_answer w = pdPASS \<and> second_answer w = pdPASS \<and> schedulerReturns w \<longrightarrow>
     \<not> returns (main cfg fuel w) \<and>
     calls (state_of (main cfg fuel w)) =
       calls w @ boot_calls cfg @
         [create_task1 cfg, create_task2 cfg, put cfg msg_keyboard, put cfg msg_enter,
          TaskStartScheduler,
          SerialPutString (configUART_PORT cfg) (''Could not start the scheduler!!!'' @ [CR, LF])
            34]"
  by (simp add: main_no_return main_calls put_def msg_scheduler_def)

text \<open>C7 at the state after reset, with a scheduler start that comes back.\<close>

theorem scheduler_return_halts_witness:
  "\<not> returns (main example_config 7 (world_init [] [] [] True)) \<and>
   calls (state_of (main example_config 7 (world_init [] [] [] True))) =
     boot_calls example_config @
       [create_task1 example_config, create_task2 example_config,
        put example_config msg_keyboard, put example_config msg_enter, TaskStartScheduler,
        SerialPutString 0 (''Could not start the scheduler!!!'' @ [CR, LF]) 34]"
  using scheduler_return_halts [where w = "world_init [] [] [] True" and cfg = example_config
      and fuel = 7]
  by (simp add: first_answer_def second_answer_def world_init_def example_config_def)

text \<open>
  C8: when both creations succeed, the start-up function issues its commands in this
  order: interrupts off; the default handler for the vectors 0, 1, ... up to
  \<open>portMAX_VECTORS - 1\<close>, each with the priority \<open>configMAX_SYSCALL_INTERRUPT_PRIORITY\<close>;
  the serial port set up; interrupts on; the banner; the creation of task1 and of task2;
  two lines of instructions; the scheduler start (and the diagnostic when it comes
  back). After the loop over the vectors every vector in the range has the default
  handler, and so it is when the function has run.
\<close>

theorem bootstrap_order:
  "(first_answer w = pdPASS \<and> second_answer w = pdPASS \<longrightarrow>
      calls (state_of (main cfg fuel w)) =
        calls w @ [DISABLE_INTERRUPTS] @
        map (\<lambda>v. InstallInterruptHandler UnknownInterruptHandler v v True
                    (configMAX_SYSCALL_INTERRUPT_PRIORITY cfg) 1) [0..<portMAX_VECTORS cfg] @
        [UARTInitialise (mainPRINT_PORT cfg) (mainPRINT_BAUDRATE cfg) 64,
         ENABLE_INTERRUPTS,
         SerialPutString (configUART_PORT cfg) banner (length banner),
         TaskCreate TaskFunction ''task1'' 128 0 (PRIOR_PERIODIC cfg),
         TaskCreate PeriodicTaskFunction ''task2'' 128 1 (PRIOR_FIX_FREQ_PERIODIC cfg),
         SerialPutString (configUART_PORT cfg) msg_keyboard (length msg_keyboard),
         SerialPutString (configUART_PORT cfg) msg_enter (length msg_enter),
         TaskStartScheduler] @
        (if schedulerReturns w
         then [SerialPutString (configUART_PORT cfg) msg_scheduler (length msg_scheduler)]
         else [])) \<and>
   (v < portMAX_VECTORS cfg \<longrightarrow>
      handler_of (install_handlers cfg 0 (portDISABLE_INTERRUPTS w)) v =
        Some \<lparr>ve_handler = UnknownInterruptHandler, ve_parameter = v, ve_edge = True,
              ve_priority = configMAX_SYSCALL_INTERRUPT_PRIORITY cfg, ve_targets = 1\<rparr> \<and>
      handler_of (state_of (main cfg fuel w)) v =
        handler_of (install_handlers cfg 0 (portDISABLE_INTERRUPTS w)) v)"
proof (intro conjI impI)
  assume "first_answer w = pdPASS \<and> second_answer w = pdPASS"
  then show "calls (state_of (main cfg fuel w)) =
        calls w @ [DISABLE_INTERRUPTS] @
        map (\<lambda>v. InstallInterruptHandler UnknownInterruptHandler v v True
                    (configMAX_SYSCALL_INTERRUPT_PRIORITY cfg) 1) [0..<portMAX_VECTORS cfg] @
        [UARTInitialise (mainPRINT_PORT cfg) (mainPRINT_BAUDRATE cfg) 64,
         ENABLE_INTERRUPTS,
         SerialPutString (configUART_PORT cfg) banner (length banner),
         TaskCreate TaskFunction ''task1'' 128 0 (PRIOR_PERIODIC cfg),
         TaskCreate PeriodicTaskFunction ''task2'' 128 1 (PRIOR_FIX_FREQ_PERIODIC cfg),
         SerialPutString (configUART_PORT cfg) msg_keyboard (length msg_keyboard),
         SerialPutString (configUART_PORT cfg) msg_enter (length msg_enter),
         TaskStartScheduler] @
        (if schedulerReturns w
         then [SerialPutString (configUART_PORT cfg) msg_scheduler (length msg_scheduler)]
         else [])"
    by (simp add: main_calls boot_calls_def install_call_def put_def create_task1_def
        create_task2_def)
next
  assume "v < portMAX_VECTORS cfg"
  then show "handler_of (install_handlers cfg 0 (portDISABLE_INTERRUPTS w)) v =
        Some \<lparr>ve_handler = UnknownInterruptHandler, ve_parameter = v, ve_edge = True,
              ve_priority = configMAX_SYSCALL_INTERRUPT_PRIORITY cfg, ve_targets = 1\<rparr>"
    by (simp add: handler_of_install_handlers default_entry_def)
next
  show "handler_of (state_of (main cfg fuel w)) v =
        handler_of (install_handlers cfg 0 (portDISABLE_INTERRUPTS w)) v"
    by (simp add: handler_of_def main_frame)
qed

text \<open>C8 with three vectors, at the state after reset.\<close>

theorem bootstrap_order_witness:
  "calls (state_of (main example_config 7 (world_init [] [] [] False))) =
     [DISABLE_INTERRUPTS,
      InstallInterruptHandler UnknownInterruptHandler 0 0 True 20 1,
      InstallInterruptHandler UnknownInterruptHandler 1 1 True 20 1,
      InstallInterruptHandler UnknownInterruptHandler 2 2 True 20 1,
      UARTInitialise 0 115200 64,
      ENABLE_INTERRUPTS,
      SerialPutString 0 banner 39,
      TaskCreate TaskFunction ''task1'' 128 0 2,
      TaskCreate PeriodicTaskFunction ''task2'' 128 1 3,
      SerialPutString 0 msg_keyboard 41,
      SerialPutString 0 msg_enter 49,
      TaskStartScheduler] \<and>
   handler_of (state_of (main example_config 7 (world_init [] [] [] False))) 2 =
     Some \<lparr>ve_handler = UnknownInterruptHandler, ve_parameter = 2, ve_edge = True,
           ve_priority = 20, ve_targets = 1\<rparr>"
  using bootstrap_order [where w = "world_init [] [] [] False" and cfg = example_config
      and fuel = 7 and v = 2]
  by (simp add: first_answer_def second_answer_def world_init_def example_config_def
      banner_def msg_keyboard_def msg_enter_def upt_rec)


subsection \<open>The descriptors\<close>

lemma task_body_tParam: "tParam (vTaskFunction_body cfg name d w) = tParam w"
  by (simp add: vTaskFunction_body_def vTaskDelay_def put_string_frame)

lemma task_loop_tParam: "tParam ((vTaskFunction_body cfg name d ^^ n) w) = tParam w"
  by (induction n) (simp_all add: task_body_tParam)

lemma periodic_body_tParam:
  "tParam (snd (vPeriodicTaskFunction_body cfg name d s)) = tParam (snd s)"
  by (cases s) (simp add: periodic_body_unfold)

lemma periodic_loop_tParam:
  "tParam (snd ((vPeriodicTaskFunction_body cfg name d ^^ n) s)) = tParam (snd s)"
  by (induction n) (simp_all add: periodic_body_tParam)

text \<open>
  C9: the array \<open>tParam\<close> holds the two descriptors ("Task1\r\n", 1000) and
  ("Periodic task\r\n", 3000) at reset, and no operation of the program changes it: not
  the start-up function, not an iteration or any run of either task function, not any
  of the hooks.
\<close>

theorem descriptors_never_mutated:
  "tParam (world_init bs input rs back) =
     [\<lparr>text' = Some (''Task1'' @ [CR, LF]), delay = 1000\<rparr>,
      \<lparr>text' = Some (''Periodic task'' @ [CR, LF]), delay = 3000\<rparr>] \<and>
   tParam (state_of (main cfg fuel w)) = tParam w \<and>
   tParam (vTaskFunction_body cfg name d w) = tParam w \<and>
   tParam (snd (vPeriodicTaskFunction_body cfg name d (l, w))) = tParam w \<and>
   tParam (state_of (vTaskFunction cfg fuel params w)) = tParam w \<and>
   tParam (state_of (vPeriodicTaskFunction cfg fuel params w)) = tParam w \<and>
   tParam (vApplicationTickHook w) = tParam w \<and>
   tParam (vApplicationIdleHook cfg w) = tParam w \<and>
   tParam (state_of (vApplicationStackOverflowHook fuel pxTask pcTaskName w)) = tParam w \<and>
   tParam (vApplicationMallocFailedHook w) = tParam w \<and>
   tParam (state_of (vAssertCalled fuel file line w)) = tParam w"
proof (intro conjI)
  show "tParam (world_init bs input rs back) =
     [\<lparr>text' = Some (''Task1'' @ [CR, LF]), delay = 1000\<rparr>,
      \<lparr>text' = Some (''Periodic task'' @ [CR, LF]), delay = 3000\<rparr>]"
    by (simp add: world_init_def tParam_init_def)
  show "tParam (state_of (main cfg fuel w)) = tParam w"
    by (rule main_frame)
  show "tParam (vTaskFunction_body cfg name d w) = tParam w"
    by (rule task_body_tParam)
  show "tParam (snd (vPeriodicTaskFunction_body cfg name d (l, w))) = tParam w"
    by (simp add: periodic_body_tParam)
  show "tParam (state_of (vTaskFunction cfg fuel params w)) = tParam w"
    by (cases "vTaskFunction_entry params") (simp add: task_run task_loop_tParam)
  show "tParam (state_of (vPeriodicTaskFunction cfg fuel params w)) = tParam w"
    by (cases "vPeriodicTaskFunction_entry params") (simp add: periodic_run periodic_loop_tParam)
  show "tParam (vApplicationTickHook w) = tParam w"
    by (simp add: vApplicationTickHook_def Let_def printf_def)
  show "tParam (vApplicationIdleHook cfg w) = tParam w"
    by (simp add: vApplicationIdleHook_def xSerialGetChar_def xSerialPutChar_def
        split: list.split)
  show "tParam (state_of (vApplicationStackOverflowHook fuel pxTask pcTaskName w)) = tParam w"
    by (simp add: vApplicationStackOverflowHook_def for_ever_id printf_def)
  show "tParam (vApplicationMallocFailedHook w) = tParam w"
    by (simp add: vApplicationMallocFailedHook_def)
  show "tParam (state_of (vAssertCalled fuel file line w)) = tParam w"
    by (simp add: vAssertCalled_def for_ever_id printf_def taskDISABLE_INTERRUPTS_def)
qed


end
